theory Spec2Isabelle
  imports Main "HOL-Library.Multiset"
begin

section \<open>Go strings\<close>

text \<open>
  A Go \<^verbatim>\<open>string\<close> is a byte sequence; it is modelled as \<^typ>\<open>string\<close>.
  \<^verbatim>\<open>strings.HasPrefix(s, prefix)\<close> and \<^verbatim>\<open>strings.Join(elems, sep)\<close> are the
  standard library's; \<open>Join\<close> returns the empty string for no element, the element
  itself for one, and otherwise puts \<open>sep\<close> between consecutive elements.
\<close>

definition HasPrefix :: "string \<Rightarrow> string \<Rightarrow> bool" where
  "HasPrefix s prefix \<longleftrightarrow> length prefix \<le> length s \<and> take (length prefix) s = prefix"

fun Join :: "string list \<Rightarrow> string \<Rightarrow> string" where
  "Join [] sep = []"
| "Join [e] sep = e"
| "Join (e # es) sep = e @ sep @ Join es sep"

section \<open>Pragmas and the connection string (database/libsql/options.go)\<close>

text \<open>
  \<^verbatim>\<open>type Pragmas map[string]string\<close>. A Go map is a finite partial function from keys
  to values.
\<close>

type_synonym Pragmas = "string \<rightharpoonup> string"

definition DefaultPragmas :: Pragmas where
  "DefaultPragmas =
     map_of
       [(''journal_mode'', ''WAL''),
        (''synchronous'', ''NORMAL''),
        (''foreign_keys'', ''ON''),
        (''cache_size'', ''-2000''),
        (''temp_store'', ''MEMORY''),
        (''mmap_size'', ''268435456'')]"

text \<open>
  \<^verbatim>\<open>for key, value := range pragmas\<close> visits every entry of the map exactly once. The Go
  language leaves the order of the visits unspecified, and the runtime varies it from
  one loop to the next. The model makes the order a parameter: \<open>range_keys pragmas keys\<close>
  says that \<open>keys\<close> is one order in which a \<^verbatim>\<open>range\<close> loop over \<open>pragmas\<close> may run.
\<close>

definition range_keys :: "Pragmas \<Rightarrow> string list \<Rightarrow> bool" where
  "range_keys pragmas keys \<longleftrightarrow> distinct keys \<and> set keys = dom pragmas"

text \<open>
  The loop of \<^verbatim>\<open>formatDSN\<close>, run along the keys in the order of the visits:
  \<^verbatim>\<open>params = append(params, key+"="+value)\<close>. The loop visits no key outside the map,
  so a key without a value adds nothing.
\<close>

fun range_params :: "Pragmas \<Rightarrow> string list \<Rightarrow> string list \<Rightarrow> string list" where
  "range_params pragmas [] params = params"
| "range_params pragmas (key # keys) params =
     (case pragmas key of
        None \<Rightarrow> range_params pragmas keys params
      | Some val \<Rightarrow> range_params pragmas keys (params @ [key @ ''='' @ val]))"

text \<open>
  \<^verbatim>\<open>formatDSN(path, pragmas)\<close>, for the run in which the loop visits the entries in the
  order \<open>keys\<close>.
\<close>

definition formatDSN :: "string \<Rightarrow> Pragmas \<Rightarrow> string list \<Rightarrow> string" where
  "formatDSN path pragmas keys =
     (let dsn = path;
          params = range_params pragmas keys []
      in if length params > 0 then dsn @ ''?'' @ Join params ''&'' else dsn)"

text \<open>
  The connection-string rule as the specification words it, for comparison with
  \<open>formatDSN\<close>: no pragma leaves the path unchanged; otherwise the pairs are appended
  with \<open>&\<close> if the path already contains a \<open>?\<close>, and with a leading \<open>?\<close> if not.
\<close>

definition spec_FormatConnectionString :: "string \<Rightarrow> Pragmas \<Rightarrow> string list \<Rightarrow> string" where
  "spec_FormatConnectionString path pragmas keys =
     (let pairs = map (\<lambda>key. key @ ''='' @ the (pragmas key)) keys
      in if pairs = [] then path
         else if CHR ''?'' \<in> set path then path @ ''&'' @ Join pairs ''&''
         else path @ ''?'' @ Join pairs ''&'')"

section \<open>Errors\<close>

text \<open>
  A Go \<^verbatim>\<open>error\<close> value: the sentinels of the migration library that the command-line
  tool compares with, an error with a plain message, and the result of
  \<^verbatim>\<open>fmt.Errorf("<prefix>%w", err)\<close>, which wraps \<open>err\<close> behind a prefix.
\<close>

datatype error =
    ErrNilVersion
  | ErrNoChange
  | ErrorString string
  | Errorf string error

text \<open>\<^verbatim>\<open>err.Error()\<close>; the sentinels carry the messages of golang-migrate.\<close>

fun Error :: "error \<Rightarrow> string" where
  "Error ErrNilVersion = ''no migration''"
| "Error ErrNoChange = ''no change''"
| "Error (ErrorString msg) = msg"
| "Error (Errorf prefix err) = prefix @ Error err"

text \<open>\<^verbatim>\<open>errors.Is(err, target)\<close>: \<open>err\<close> or an error it wraps is the target.\<close>

fun Is :: "error \<Rightarrow> error \<Rightarrow> bool" where
  "Is (Errorf prefix err) target = (Errorf prefix err = target \<or> Is err target)"
| "Is err target = (err = target)"

section \<open>Configuration (database/database.go)\<close>

text \<open>
  \<^verbatim>\<open>time.Duration\<close> is a signed 64-bit count of nanoseconds. The code computes with
  durations only in the constant \<^verbatim>\<open>time.Minute * 30\<close> and compares one with zero, so
  the model uses \<^typ>\<open>int\<close>; the constants are those of Go's \<^verbatim>\<open>time\<close> package.
\<close>

type_synonym Duration = int

definition Nanosecond :: Duration where "Nanosecond = 1"
definition Microsecond :: Duration where "Microsecond = 1000 * Nanosecond"
definition Millisecond :: Duration where "Millisecond = 1000 * Microsecond"
definition Second :: Duration where "Second = 1000 * Millisecond"
definition Minute :: Duration where "Minute = 60 * Second"
definition Hour :: Duration where "Hour = 60 * Minute"

record Config =
  Path :: string
  AuthToken :: string
  MaxOpenConns :: int
  MaxIdleConns :: int
  ConnMaxLifetime :: Duration
  ConnMaxIdleTime :: Duration
  Pragmas :: Pragmas

definition DefaultConfig :: Config where
  "DefaultConfig =
     \<lparr>Path = '':memory:'',
      AuthToken = '''',
      MaxOpenConns = 5,
      MaxIdleConns = 5,
      ConnMaxLifetime = Hour,
      ConnMaxIdleTime = Minute * 30,
      Pragmas = DefaultPragmas\<rparr>"

section \<open>The database drivers\<close>

text \<open>
  \<open>Open\<close> works through \<^verbatim>\<open>database/sql\<close> and the libSQL and sqlite3 drivers, which are
  not part of the repository. The model records every call that reaches them, in order,
  and takes their answers from a \<open>driver\<close>: whether building a connector, opening by
  driver name or pinging a handle returns an error, and which.

  A connector option is \<^verbatim>\<open>libsql.WithAuthToken(token)\<close> or the \<^verbatim>\<open>nil\<close> that the local
  branch passes (\<open>None\<close>). A \<^verbatim>\<open>*sql.DB\<close> is a handle, a number; the call that creates
  it records the number, and a fresh handle is the number of calls made so far.
\<close>

datatype Option = WithAuthToken string

datatype call =
    libsql_NewConnector string "Option option list"
  | sql_OpenDB string "Option option list" nat
  | sqlite_vec_Auto
  | sql_Open string string "nat option"
  | SetMaxOpenConns nat int
  | SetMaxIdleConns nat int
  | SetConnMaxLifetime nat Duration
  | SetConnMaxIdleTime nat Duration
  | Ping nat
  | Close nat

record driver =
  NewConnector_err :: "string \<Rightarrow> Option option list \<Rightarrow> error option"
  sql_Open_err :: "string \<Rightarrow> string \<Rightarrow> error option"
  Ping_err :: "nat \<Rightarrow> error option"

text \<open>The handles that the calls of a trace have created, and those still open.\<close>

fun created :: "call list \<Rightarrow> nat list" where
  "created [] = []"
| "created (sql_OpenDB name opts db # calls) = db # created calls"
| "created (sql_Open driverName dsn (Some db) # calls) = db # created calls"
| "created (c # calls) = created calls"

definition db_open :: "call list \<Rightarrow> nat \<Rightarrow> bool" where
  "db_open calls db \<longleftrightarrow> db \<in> set (created calls) \<and> Close db \<notin> set calls"

text \<open>
  A call either returns or panics. \<^verbatim>\<open>libsql.NewConnector(name, opts...)\<close> applies every
  option to its configuration before anything else (\<^verbatim>\<open>opt.apply(&config)\<close>); the
  option \<^verbatim>\<open>nil\<close> is a nil interface value, and the call of its method panics with a nil
  pointer dereference. Without a \<^verbatim>\<open>nil\<close> option the call returns the connector or the
  error that the driver gives. Then \<^verbatim>\<open>db = sql.OpenDB(connector)\<close> does not fail and
  does not return \<^verbatim>\<open>nil\<close>, and \<^verbatim>\<open>db, err := sql.Open(driverName, dsn)\<close> returns an error
  and no handle, or a handle and no error.
\<close>

datatype 'a outcome = Panics | Returns 'a

definition NewConnector :: "driver \<Rightarrow> string \<Rightarrow> Option option list \<Rightarrow> call list \<Rightarrow> error option outcome \<times> call list" where
  "NewConnector drv name opts calls =
     (if None \<in> set opts then Panics else Returns (NewConnector_err drv name opts),
      calls @ [libsql_NewConnector name opts])"

definition OpenDB :: "string \<Rightarrow> Option option list \<Rightarrow> call list \<Rightarrow> nat option \<times> call list" where
  "OpenDB name opts calls = (Some (length calls), calls @ [sql_OpenDB name opts (length calls)])"

definition Open_sql :: "driver \<Rightarrow> string \<Rightarrow> string \<Rightarrow> call list \<Rightarrow> (nat option \<times> error option) \<times> call list" where
  "Open_sql drv driverName dsn calls =
     (case sql_Open_err drv driverName dsn of
        Some err \<Rightarrow> ((None, Some err), calls @ [sql_Open driverName dsn None])
      | None \<Rightarrow>
          ((Some (length calls), None), calls @ [sql_Open driverName dsn (Some (length calls))]))"

section \<open>Open (database/database.go)\<close>

text \<open>
  \<open>Open drv cfg keys calls\<close> is \<^verbatim>\<open>Open(cfg)\<close> run against the driver \<open>drv\<close> after the
  calls \<open>calls\<close>, with \<open>keys\<close> the order in which \<open>formatDSN\<close> ranges over the pragmas.
  The result is the panic, or the error or the handle (\<^verbatim>\<open>&DB{DB: db}\<close>) that \<open>Open\<close>
  returns, and the calls made.
\<close>

definition Open :: "driver \<Rightarrow> Config \<Rightarrow> string list \<Rightarrow> call list \<Rightarrow> (error + nat) outcome \<times> call list" where
  "Open drv cfg keys calls =
     (let (res, calls) =
        (if HasPrefix (Path cfg) ''libsql://'' then
           (let connOpts = [];
                connOpts = (if AuthToken cfg \<noteq> []
                            then connOpts @ [Some (WithAuthToken (AuthToken cfg))]
                            else connOpts);
                (r, calls) = NewConnector drv (Path cfg) connOpts calls
            in case r of
                 Panics \<Rightarrow> (Panics, calls)
               | Returns (Some err) \<Rightarrow>
                   (Returns (Inl (Errorf ''creating libSQL connector for remote database: '' err)),
                    calls)
               | Returns None \<Rightarrow>
                   (let (db, calls) = OpenDB (Path cfg) connOpts calls
                    in (Returns (Inr db), calls)))
         else
           (let dsn = formatDSN (Path cfg) (Pragmas cfg) keys;
                (r, calls) = NewConnector drv dsn [None] calls
            in case r of
                 Panics \<Rightarrow> (Panics, calls)
               | Returns (Some err) \<Rightarrow>
                   (Returns (Inl (Errorf ''creating libSQL connector for local database: '' err)),
                    calls)
               | Returns None \<Rightarrow>
                   (let (db, calls) = OpenDB dsn [None] calls
                    in (Returns (Inr db), calls))))
      in case res of
           Panics \<Rightarrow> (Panics, calls)
         | Returns (Inl err) \<Rightarrow> (Returns (Inl err), calls)
         | Returns (Inr None) \<Rightarrow>
             (Returns (Inl (ErrorString ''failed to create a database connection'')), calls)
         | Returns (Inr (Some db)) \<Rightarrow>
             (let calls = calls @ [SetMaxOpenConns db (MaxOpenConns cfg)];
                  calls = calls @ [SetMaxIdleConns db (MaxIdleConns cfg)];
                  calls = calls @ [SetConnMaxLifetime db (ConnMaxLifetime cfg)];
                  calls = calls @ [SetConnMaxIdleTime db (ConnMaxIdleTime cfg)];
                  calls = calls @ [Ping db]
              in case Ping_err drv db of
                   Some err \<Rightarrow>
                     (Returns (Inl (Errorf ''pinging database: '' err)), calls @ [Close db])
                 | None \<Rightarrow> (Returns (Inr db), calls)))"

section \<open>Open (database/sqlite3/database.go)\<close>

text \<open>
  The \<^verbatim>\<open>Config\<close> of this package has the fields of the one above, so the model uses
  the same record. The package's own \<^verbatim>\<open>formatDSN\<close> is not among the sources; the one of
  \<^verbatim>\<open>database/libsql/options.go\<close> stands for it.
\<close>

definition Open_sqlite3 :: "driver \<Rightarrow> Config \<Rightarrow> string list \<Rightarrow> call list \<Rightarrow> (error + nat) \<times> call list" where
  "Open_sqlite3 drv cfg keys calls =
     (let dsn = formatDSN (Path cfg) (Pragmas cfg) keys;
          dsn = (if dsn \<noteq> '':memory:'' \<and> \<not> HasPrefix dsn ''file:'' then ''file:'' @ dsn else dsn);
          calls = calls @ [sqlite_vec_Auto];
          ((db, err), calls) = Open_sql drv ''sqlite3'' dsn calls
      in case err of
           Some err \<Rightarrow> (Inl (Errorf ''opening database: '' err), calls)
         | None \<Rightarrow>
             (case db of
                None \<Rightarrow> (Inl (ErrorString ''failed to create a database connection''), calls)
              | Some db \<Rightarrow>
                  (let calls = calls @ [SetMaxOpenConns db (MaxOpenConns cfg)];
                       calls = calls @ [SetMaxIdleConns db (MaxIdleConns cfg)];
                       calls = calls @ [SetConnMaxLifetime db (ConnMaxLifetime cfg)];
                       calls = calls @ [SetConnMaxIdleTime db (ConnMaxIdleTime cfg)];
                       calls = calls @ [Ping db]
                   in case Ping_err drv db of
                        Some err \<Rightarrow>
                          (Inl (Errorf ''pinging database: '' err), calls @ [Close db])
                      | None \<Rightarrow> (Inr db, calls))))"

section \<open>Open (unnamed/part_002)\<close>

text \<open>
  The third variant, package \<^verbatim>\<open>database\<close> over the sqlite3 driver. Its \<^verbatim>\<open>Config\<close> has no
  auth token. Its \<^verbatim>\<open>formatDSN\<close> is not among the sources either and is taken to be the
  one above. The source has no \<^verbatim>\<open>nil\<close> check on the handle, so that a \<^verbatim>\<open>nil\<close> handle
  would make the first pool setting panic (\<^verbatim>\<open>sql.Open\<close> returns none without an error),
  and it has no \<^verbatim>\<open>db.Close()\<close> where the ping fails.
\<close>

record Config_part_002 =
  Path_2 :: string
  MaxOpenConns_2 :: int
  MaxIdleConns_2 :: int
  ConnMaxLifetime_2 :: Duration
  ConnMaxIdleTime_2 :: Duration
  Pragmas_2 :: Pragmas

definition DefaultConfig_part_002 :: Config_part_002 where
  "DefaultConfig_part_002 =
     \<lparr>Path_2 = '':memory:'',
      MaxOpenConns_2 = 5,
      MaxIdleConns_2 = 5,
      ConnMaxLifetime_2 = Hour,
      ConnMaxIdleTime_2 = Minute * 30,
      Pragmas_2 = DefaultPragmas\<rparr>"

definition Open_part_002 :: "driver \<Rightarrow> Config_part_002 \<Rightarrow> string list \<Rightarrow> call list \<Rightarrow> (error + nat) \<times> call list" where
  "Open_part_002 drv cfg keys calls =
     (let dsn = formatDSN (Path_2 cfg) (Pragmas_2 cfg) keys;
          ((db, err), calls) = Open_sql drv ''sqlite3'' dsn calls
      in case err of
           Some err \<Rightarrow> (Inl (Errorf ''opening database: '' err), calls)
         | None \<Rightarrow>
             (case db of
                None \<Rightarrow> (Inl (ErrorString ''invalid memory address or nil pointer dereference''), calls)
              | Some db \<Rightarrow>
                  (let calls = calls @ [SetMaxOpenConns db (MaxOpenConns_2 cfg)];
                       calls = calls @ [SetMaxIdleConns db (MaxIdleConns_2 cfg)];
                       calls = calls @ [SetConnMaxLifetime db (ConnMaxLifetime_2 cfg)];
                       calls = calls @ [SetConnMaxIdleTime db (ConnMaxIdleTime_2 cfg)];
                       calls = calls @ [Ping db]
                   in case Ping_err drv db of
                        Some err \<Rightarrow> (Inl (Errorf ''pinging database: '' err), calls)
                      | None \<Rightarrow> (Inr db, calls))))"

section \<open>WithContext (database/database.go)\<close>

text \<open>
  Contexts as package \<^verbatim>\<open>context\<close> builds them here: the background context, and the
  child that \<^verbatim>\<open>context.WithTimeout(parent, timeout)\<close> returns, which carries the deadline
  \<open>now + timeout\<close>. A context's deadline is its own or an earlier one of an ancestor.
  A cancel function is the empty function literal \<^verbatim>\<open>func() {}\<close> or the function that
  cancels a context; \<open>run_cancel\<close> is its effect on the set of cancelled contexts.
\<close>

datatype Context = Background | timerCtx Context int

datatype CancelFunc = empty_func | cancel_of Context

fun Deadline :: "Context \<Rightarrow> int option" where
  "Deadline Background = None"
| "Deadline (timerCtx parent d) =
     (case Deadline parent of None \<Rightarrow> Some d | Some p \<Rightarrow> Some (min p d))"

fun run_cancel :: "CancelFunc \<Rightarrow> Context set \<Rightarrow> Context set" where
  "run_cancel empty_func cancelled = cancelled"
| "run_cancel (cancel_of ctx) cancelled = insert ctx cancelled"

definition context_WithTimeout :: "int \<Rightarrow> Context \<Rightarrow> Duration \<Rightarrow> Context \<times> CancelFunc" where
  "context_WithTimeout now parent timeout =
     (let ctx = timerCtx parent (now + timeout) in (ctx, cancel_of ctx))"

definition WithContext :: "int \<Rightarrow> Context \<Rightarrow> Duration \<Rightarrow> Context \<times> CancelFunc" where
  "WithContext now ctx timeout =
     (if timeout > 0 then context_WithTimeout now ctx timeout else (ctx, empty_func))"

section \<open>Formatting and file paths\<close>

text \<open>
  The verbs of \<^verbatim>\<open>fmt\<close> that the migration tool uses: \<^verbatim>\<open>%d\<close> prints an integer in
  decimal, with a minus sign if it is negative; \<^verbatim>\<open>%v\<close> prints a boolean as \<open>true\<close> or
  \<open>false\<close> and an error as its message. \<open>newline\<close> is the string \<^verbatim>\<open>"\n"\<close>.
\<close>

definition digit :: "nat \<Rightarrow> char" where
  "digit d = ''0123456789'' ! d"

fun decimal :: "nat \<Rightarrow> string" where
  "decimal n = (if n < 10 then [digit n] else decimal (n div 10) @ [digit (n mod 10)])"

declare decimal.simps [simp del]

definition FormatInt :: "int \<Rightarrow> string" where
  "FormatInt i = (if i < 0 then CHR ''-'' # decimal (nat (- i)) else decimal (nat i))"

definition FormatBool :: "bool \<Rightarrow> string" where
  "FormatBool b = (if b then ''true'' else ''false'')"

definition newline :: string where
  "newline = [CHR 0x0A]"

text \<open>
  \<^verbatim>\<open>filepath.Join\<close> of Go's standard library, for the separator \<open>/\<close>: the elements
  from the first non-empty one on are joined with the separator and the result is
  cleaned. \<^verbatim>\<open>filepath.Clean\<close> works on the path elements between separators: it drops
  empty elements and \<open>.\<close>, and lets \<open>..\<close> remove the element before it; a \<open>..\<close> with
  no element to remove is kept in a relative path and dropped in a rooted one. \<open>out\<close> is
  the stack of the elements kept so far, the last one first.
\<close>

fun split_sep :: "string \<Rightarrow> string list" where
  "split_sep [] = [[]]"
| "split_sep (c # cs) =
     (if c = CHR ''/'' then [] # split_sep cs
      else (case split_sep cs of [] \<Rightarrow> [[c]] | e # es \<Rightarrow> (c # e) # es))"

fun clean_elems :: "bool \<Rightarrow> string list \<Rightarrow> string list \<Rightarrow> string list" where
  "clean_elems rooted [] out = rev out"
| "clean_elems rooted (e # es) out =
     (if e = [] \<or> e = ''.'' then clean_elems rooted es out
      else if e = ''..'' then
        (if out \<noteq> [] \<and> hd out \<noteq> ''..'' then clean_elems rooted es (tl out)
         else if \<not> rooted then clean_elems rooted es (''..'' # out)
         else clean_elems rooted es out)
      else clean_elems rooted es (e # out))"

definition Clean :: "string \<Rightarrow> string" where
  "Clean path =
     (if path = [] then ''.''
      else
        (let rooted = (hd path = CHR ''/'');
             out = clean_elems rooted (split_sep path) []
         in if rooted then CHR ''/'' # Join out ''/''
            else if out = [] then ''.''
            else Join out ''/''))"

definition filepath_Join :: "string list \<Rightarrow> string" where
  "filepath_Join elem =
     (case dropWhile (\<lambda>e. e = []) elem of
        [] \<Rightarrow> []
      | e # es \<Rightarrow> Clean (Join (e # es) ''/''))"

section \<open>The migration tool (unnamed/part_001)\<close>

text \<open>
  The tool acts on the file system, on its output streams, on the database it opens and
  on the version that the migration library keeps in that database. \<open>files\<close> maps the
  path of a regular file to its content, \<open>dirs\<close> holds the directories created,
  \<open>stdout\<close> and \<open>logged\<close> are what was printed and what was logged, \<open>db_calls\<close> are the
  calls made to the database drivers, and \<open>version\<close> is the stored version with its
  dirty flag, \<open>None\<close> while no migration has ever been applied.
\<close>

record system =
  files :: "string \<rightharpoonup> string"
  dirs :: "string set"
  stdout :: string
  logged :: "string list"
  db_calls :: "call list"
  version :: "(nat \<times> bool) option"

text \<open>
  The operating system and the migration library answer as an \<open>os\<close> and a \<open>migrate\<close>
  say: each call of \<^verbatim>\<open>os.MkdirAll\<close> and \<^verbatim>\<open>os.WriteFile\<close> may fail, \<^verbatim>\<open>os.Getenv\<close> reads
  the environment (the empty string for an unset variable), and each of
  \<^verbatim>\<open>sqlite.WithInstance\<close>, \<^verbatim>\<open>migrate.NewWithDatabaseInstance\<close> and the read of the stored
  version may fail.
\<close>

record os =
  MkdirAll_err :: "string \<Rightarrow> error option"
  WriteFile_err :: "string \<Rightarrow> error option"
  Getenv :: "string \<Rightarrow> string"

record migrate =
  WithInstance_err :: "error option"
  NewWithDatabaseInstance_err :: "error option"
  Version_err :: "error option"

text \<open>
  How a function of the tool ends: it returns, or \<^verbatim>\<open>log.Fatalf\<close> has logged a message
  and ended the process with a non-zero status, or a panic has ended the process.
\<close>

datatype exit = Returned | Fatal | Panicked

definition migrationsDir :: string where
  "migrationsDir = ''./db/migrations''"

definition Fatalf :: "string \<Rightarrow> system \<Rightarrow> exit \<times> system" where
  "Fatalf msg s = (Fatal, s\<lparr>logged := logged s @ [msg]\<rparr>)"

text \<open>
  \<^verbatim>\<open>os.MkdirAll(path, 0755)\<close> creates the directory and the parents it lacks, which
  are the paths made of the first elements of the cleaned path;
  \<^verbatim>\<open>os.WriteFile(name, data, 0644)\<close> creates the file or replaces its content.
\<close>

fun ancestors :: "string list \<Rightarrow> string list \<Rightarrow> string list" where
  "ancestors pre [] = []"
| "ancestors pre (e # es) = Join (pre @ [e]) ''/'' # ancestors (pre @ [e]) es"

definition MkdirAll :: "string \<Rightarrow> system \<Rightarrow> system" where
  "MkdirAll path s =
     s\<lparr>dirs := dirs s \<union> set (filter (\<lambda>d. d \<noteq> []) (ancestors [] (split_sep (Clean path))))\<rparr>"

definition WriteFile :: "string \<Rightarrow> string \<Rightarrow> system \<Rightarrow> system" where
  "WriteFile name data s = s\<lparr>files := (files s)(name \<mapsto> data)\<rparr>"

text \<open>\<open>createMigration os timestamp name\<close>, with \<open>timestamp\<close> the value of \<^verbatim>\<open>time.Now().Unix()\<close>.\<close>

definition createMigration :: "os \<Rightarrow> int \<Rightarrow> string \<Rightarrow> system \<Rightarrow> exit \<times> system" where
  "createMigration os timestamp name s =
     (let upMigration =
            filepath_Join [migrationsDir, FormatInt timestamp @ ''_'' @ name @ ''.up.sql''];
          downMigration =
            filepath_Join [migrationsDir, FormatInt timestamp @ ''_'' @ name @ ''.down.sql'']
      in case MkdirAll_err os migrationsDir of
           Some err \<Rightarrow> Fatalf (''Failed to create migrations directory: '' @ Error err) s
         | None \<Rightarrow>
             (let s = MkdirAll migrationsDir s
              in case WriteFile_err os upMigration of
                   Some err \<Rightarrow> Fatalf (''Failed to create up migration file: '' @ Error err) s
                 | None \<Rightarrow>
                     (let s = WriteFile upMigration (''-- Migration Up'' @ newline) s
                      in case WriteFile_err os downMigration of
                           Some err \<Rightarrow>
                             Fatalf (''Failed to create down migration file: '' @ Error err) s
                         | None \<Rightarrow>
                             (let s = WriteFile downMigration (''-- Migration Down'' @ newline) s
                              in (Returned,
                                  s\<lparr>stdout := stdout s @ ''Created migration files:'' @ newline @
                                     upMigration @ newline @ downMigration @ newline\<rparr>)))))"

definition getDBPath :: "os \<Rightarrow> string" where
  "getDBPath os =
     (let dbPath = Getenv os ''DB_PATH'';
          dbPath = (if dbPath = [] then ''parsel.db'' else dbPath)
      in dbPath)"

text \<open>
  \<open>openDB\<close> returns the handle, or the way the process has ended: \<^verbatim>\<open>log.Fatalf\<close> where
  the connector cannot be built, a panic where \<^verbatim>\<open>libsql.NewConnector\<close> panics. Its last
  check reads the outer \<^verbatim>\<open>err\<close>, which no branch assigns (each declares its own), so it
  is \<^verbatim>\<open>nil\<close> there.
\<close>

definition openDB :: "driver \<Rightarrow> string \<Rightarrow> system \<Rightarrow> (exit + nat option) \<times> system" where
  "openDB drv dbPath s =
     (let err = None :: error option;
          (db, s) =
            (if HasPrefix dbPath ''libsql://'' then
               (let connOpts = [];
                    (r, calls) = NewConnector drv dbPath connOpts (db_calls s);
                    s = s\<lparr>db_calls := calls\<rparr>
                in case r of
                     Panics \<Rightarrow> (Inl Panicked, s)
                   | Returns (Some cerr) \<Rightarrow>
                       (case Fatalf (''Failed to create libSQL connector: '' @ Error cerr) s of
                          (e, s) \<Rightarrow> (Inl e, s))
                   | Returns None \<Rightarrow>
                       (let (db, calls) = OpenDB dbPath connOpts (db_calls s)
                        in (Inr db, s\<lparr>db_calls := calls\<rparr>)))
             else
               (let (r, calls) = NewConnector drv dbPath [None] (db_calls s);
                    s = s\<lparr>db_calls := calls\<rparr>
                in case r of
                     Panics \<Rightarrow> (Inl Panicked, s)
                   | Returns (Some cerr) \<Rightarrow>
                       (case Fatalf (''Failed to create libSQL connector: '' @ Error cerr) s of
                          (e, s) \<Rightarrow> (Inl e, s))
                   | Returns None \<Rightarrow>
                       (let (db, calls) = OpenDB dbPath [None] (db_calls s)
                        in (Inr db, s\<lparr>db_calls := calls\<rparr>))))
      in case db of
           Inl e \<Rightarrow> (Inl e, s)
         | Inr db \<Rightarrow>
             (case err of
                Some err \<Rightarrow>
                  (case Fatalf (''Failed to open database: '' @ Error err) s of
                     (e, s) \<Rightarrow> (Inl e, s))
              | None \<Rightarrow> (Inr db, s)))"

text \<open>
  \<^verbatim>\<open>m.Version()\<close> of golang-migrate: the error of the read if it fails,
  \<^verbatim>\<open>ErrNilVersion\<close> if no version is stored, and otherwise the stored version and its
  dirty flag.
\<close>

definition migrate_Version :: "migrate \<Rightarrow> system \<Rightarrow> nat \<times> bool \<times> error option" where
  "migrate_Version lib s =
     (case Version_err lib of
        Some err \<Rightarrow> (0, False, Some err)
      | None \<Rightarrow>
          (case version s of
             None \<Rightarrow> (0, False, Some ErrNilVersion)
           | Some (v, dirty) \<Rightarrow> (v, dirty, None)))"

definition getMigrationVersion :: "driver \<Rightarrow> os \<Rightarrow> migrate \<Rightarrow> system \<Rightarrow> exit \<times> system" where
  "getMigrationVersion drv os lib s =
     (let dbPath = getDBPath os
      in case openDB drv dbPath s of
           (Inl e, s) \<Rightarrow> (e, s)
         | (Inr db, s) \<Rightarrow>
             (case WithInstance_err lib of
                Some err \<Rightarrow> Fatalf (''Failed to connect to database: '' @ Error err) s
              | None \<Rightarrow>
                  (case NewWithDatabaseInstance_err lib of
                     Some err \<Rightarrow>
                       Fatalf (''Failed to create migration instance: '' @ Error err) s
                   | None \<Rightarrow>
                       (let (version, dirty, err) = migrate_Version lib s
                        in case err of
                             Some err \<Rightarrow>
                               (if Is err ErrNilVersion
                                then (Returned,
                                      s\<lparr>stdout := stdout s @ ''No migrations applied yet'' @ newline\<rparr>)
                                else Fatalf (''Failed to get migration version: '' @ Error err) s)
                           | None \<Rightarrow>
                               (Returned,
                                s\<lparr>stdout := stdout s @ ''Current migration version: '' @
                                   decimal version @ '' (dirty: '' @ FormatBool dirty @ '')'' @
                                   newline\<rparr>)))))"

text \<open>
  An operating system on which every call succeeds and \<^verbatim>\<open>DB_PATH\<close> is unset, one on
  which it names a remote database, a migration library on which every call succeeds,
  and a fresh system.
\<close>

definition os_ok :: os where
  "os_ok = \<lparr>MkdirAll_err = (\<lambda>path. None), WriteFile_err = (\<lambda>name. None), Getenv = (\<lambda>key. [])\<rparr>"

definition os_remote :: os where
  "os_remote =
     \<lparr>MkdirAll_err = (\<lambda>path. None), WriteFile_err = (\<lambda>name. None),
      Getenv = (\<lambda>key. if key = ''DB_PATH'' then ''libsql://db.turso.io'' else [])\<rparr>"

definition migrate_ok :: migrate where
  "migrate_ok = \<lparr>WithInstance_err = None, NewWithDatabaseInstance_err = None, Version_err = None\<rparr>"

definition fresh_system :: system where
  "fresh_system =
     \<lparr>files = Map.empty, dirs = {}, stdout = [], logged = [], db_calls = [], version = None\<rparr>"

section \<open>Drivers and configurations of the examples\<close>

text \<open>
  A driver on which every call succeeds, and one on which connectors and handles are
  created but no ping succeeds, as for a database file in a directory that does not
  exist.
\<close>

definition driver_ok :: driver where
  "driver_ok =
     \<lparr>NewConnector_err = (\<lambda>name opts. None),
      sql_Open_err = (\<lambda>driverName dsn. None),
      Ping_err = (\<lambda>db. None)\<rparr>"

definition driver_ping_fails :: driver where
  "driver_ping_fails =
     \<lparr>NewConnector_err = (\<lambda>name opts. None),
      sql_Open_err = (\<lambda>driverName dsn. None),
      Ping_err = (\<lambda>db. Some (ErrorString ''unable to open database file''))\<rparr>"

definition default_keys :: "string list" where
  "default_keys =
     [''journal_mode'', ''synchronous'', ''foreign_keys'', ''cache_size'', ''temp_store'',
      ''mmap_size'']"

section \<open>Properties of the connection string\<close>

lemma range_params_append:
  "range_params pragmas keys params = params @ range_params pragmas keys []"
proof (induction keys arbitrary: params)
  case Nil
  show ?case by simp
next
  case (Cons key keys)
  show ?case
  proof (cases "pragmas key")
    case None
    then show ?thesis using Cons.IH [of params] by simp
  next
    case (Some val)
    then show ?thesis
      using Cons.IH [of "params @ [key @ ''='' @ val]"] Cons.IH [of "[key @ ''='' @ val]"]
      by simp
  qed
qed

lemma range_params_map:
  "set keys \<subseteq> dom pragmas \<Longrightarrow>
   range_params pragmas keys [] = map (\<lambda>key. key @ ''='' @ the (pragmas key)) keys"
proof (induction keys)
  case Nil
  show ?case by simp
next
  case (Cons key keys)
  from Cons.prems obtain val where v: "pragmas key = Some val" by auto
  from Cons.prems have "set keys \<subseteq> dom pragmas" by simp
  then have "range_params pragmas keys [] = map (\<lambda>key. key @ ''='' @ the (pragmas key)) keys"
    by (rule Cons.IH)
  then show ?case
    using v range_params_append [of pragmas keys "[key @ ''='' @ val]"] by simp
qed

lemma range_params_empty: "range_params Map.empty keys params = params"
  by (induction keys) simp_all

lemma range_keys_nonempty:
  "range_keys pragmas keys \<Longrightarrow> pragmas \<noteq> Map.empty \<Longrightarrow> keys \<noteq> []"
  by (auto simp: range_keys_def dom_eq_empty_conv [symmetric] simp del: dom_eq_empty_conv)

lemma range_keys_empty: "range_keys Map.empty keys \<longleftrightarrow> keys = []"
  by (auto simp: range_keys_def)

lemma formatDSN_query:
  assumes "range_keys pragmas keys" and "pragmas \<noteq> Map.empty"
  shows "formatDSN path pragmas keys =
           path @ ''?'' @ Join (map (\<lambda>key. key @ ''='' @ the (pragmas key)) keys) ''&''"
proof -
  from assms have ne: "keys \<noteq> []" by (rule range_keys_nonempty)
  from assms(1) have "set keys \<subseteq> dom pragmas" by (simp add: range_keys_def)
  then have "range_params pragmas keys [] = map (\<lambda>key. key @ ''='' @ the (pragmas key)) keys"
    by (rule range_params_map)
  with ne show ?thesis by (simp add: formatDSN_def)
qed

lemma range_keys_mset:
  "range_keys pragmas keys \<Longrightarrow> range_keys pragmas keys' \<Longrightarrow> mset keys = mset keys'"
  by (simp add: range_keys_def set_eq_iff_mset_eq_distinct [symmetric])

lemma range_keys_small:
  assumes "range_keys pragmas keys" and "range_keys pragmas keys'" and "card (dom pragmas) \<le> 1"
  shows "keys = keys'"
proof -
  from assms have "length keys \<le> 1" "length keys' \<le> 1"
    by (auto simp: range_keys_def dest: distinct_card)
  moreover from assms have "set keys = set keys'" by (simp add: range_keys_def)
  ultimately show ?thesis
    by (cases keys; cases keys') auto
qed

lemma length_Join:
  "length (Join xs sep) = sum_list (map length xs) + (length xs - 1) * length sep"
  by (induction xs sep rule: Join.induct) simp_all

lemma range_params_mset:
  assumes "range_keys pragmas keys" and "range_keys pragmas keys'"
  shows "mset (range_params pragmas keys []) = mset (range_params pragmas keys' [])"
proof -
  from assms have sub: "set keys \<subseteq> dom pragmas" "set keys' \<subseteq> dom pragmas"
    by (simp_all add: range_keys_def)
  from assms have "mset keys = mset keys'" by (rule range_keys_mset)
  then have "mset (map (\<lambda>key. key @ ''='' @ the (pragmas key)) keys) =
             mset (map (\<lambda>key. key @ ''='' @ the (pragmas key)) keys')"
    by simp
  with sub show ?thesis by (simp add: range_params_map)
qed

lemma length_formatDSN:
  assumes "mset (range_params pragmas keys []) = mset (range_params pragmas keys' [])"
  shows "length (formatDSN path pragmas keys) = length (formatDSN path pragmas keys')"
proof -
  let ?ps = "range_params pragmas keys []" and ?qs = "range_params pragmas keys' []"
  from assms have "size (mset ?ps) = size (mset ?qs)" by simp
  then have len: "length ?ps = length ?qs" by simp
  from assms have "mset (map length ?ps) = mset (map length ?qs)" by simp
  then have "sum_mset (mset (map length ?ps)) = sum_mset (mset (map length ?qs))" by simp
  then have "sum_list (map length ?ps) = sum_list (map length ?qs)"
    by (simp only: sum_mset_sum_list)
  moreover from len have "?ps = [] \<longleftrightarrow> ?qs = []" by (metis length_0_conv)
  ultimately show ?thesis using len by (simp add: formatDSN_def Let_def length_Join)
qed

text \<open>
  C1 (as amended). For every path and every non-empty pragma mapping, \<open>formatDSN\<close>
  appends the pragmas after a single \<open>?\<close>, whether or not the path already contains
  one, with a single \<open>&\<close> between consecutive pairs. Where the path contains no \<open>?\<close>
  this is the rule of the specification.
\<close>

theorem formatDSN_appends_question_mark:
  assumes "range_keys pragmas keys" and "pragmas \<noteq> Map.empty"
  shows "formatDSN path pragmas keys =
           path @ ''?'' @ Join (map (\<lambda>key. key @ ''='' @ the (pragmas key)) keys) ''&'' \<and>
         (CHR ''?'' \<notin> set path \<longrightarrow>
            formatDSN path pragmas keys = spec_FormatConnectionString path pragmas keys)"
proof -
  from assms have ne: "keys \<noteq> []" by (rule range_keys_nonempty)
  from assms have q: "formatDSN path pragmas keys =
      path @ ''?'' @ Join (map (\<lambda>key. key @ ''='' @ the (pragmas key)) keys) ''&''"
    by (rule formatDSN_query)
  with ne show ?thesis by (simp add: spec_FormatConnectionString_def)
qed

theorem formatDSN_appends_question_mark_witness:
  "range_keys (map_of [(''a'', ''1'')]) [''a''] \<and>
   map_of [(''a'', ''1'')] \<noteq> (Map.empty :: Pragmas) \<and>
   CHR ''?'' \<notin> set ''app.db'' \<and>
   formatDSN ''app.db'' (map_of [(''a'', ''1'')]) [''a''] = ''app.db?a=1'' \<and>
   spec_FormatConnectionString ''app.db'' (map_of [(''a'', ''1'')]) [''a''] = ''app.db?a=1''"
proof -
  have r: "range_keys (map_of [(''a'', ''1'')]) [''a'']"
    by (simp add: range_keys_def)
  have n: "map_of [(''a'', ''1'')] \<noteq> (Map.empty :: Pragmas)"
    by simp
  have q: "CHR ''?'' \<notin> set ''app.db''"
    by simp
  note t = formatDSN_appends_question_mark [OF r n, of "''app.db''"]
  from t have v: "formatDSN ''app.db'' (map_of [(''a'', ''1'')]) [''a''] = ''app.db?a=1''"
    by simp
  from t q have "formatDSN ''app.db'' (map_of [(''a'', ''1'')]) [''a''] =
      spec_FormatConnectionString ''app.db'' (map_of [(''a'', ''1'')]) [''a'']"
    by (rule conjunct2 [THEN mp])
  with v have "spec_FormatConnectionString ''app.db'' (map_of [(''a'', ''1'')]) [''a''] = ''app.db?a=1''"
    by simp
  with r n q v show ?thesis by blast
qed

text \<open>
  C1 (as stated) fails where the path already contains a \<open>?\<close>: the pragma is joined
  with a second \<open>?\<close>, not with \<open>&\<close>.
\<close>

theorem formatDSN_question_mark_counterexample:
  "range_keys (map_of [(''a'', ''1'')]) [''a''] \<and>
   CHR ''?'' \<in> set ''app.db?mode=ro'' \<and>
   formatDSN ''app.db?mode=ro'' (map_of [(''a'', ''1'')]) [''a''] = ''app.db?mode=ro?a=1'' \<and>
   spec_FormatConnectionString ''app.db?mode=ro'' (map_of [(''a'', ''1'')]) [''a''] =
     ''app.db?mode=ro&a=1'' \<and>
   formatDSN ''app.db?mode=ro'' (map_of [(''a'', ''1'')]) [''a''] \<noteq>
     spec_FormatConnectionString ''app.db?mode=ro'' (map_of [(''a'', ''1'')]) [''a'']"
  by (simp add: range_keys_def formatDSN_def spec_FormatConnectionString_def)

lemma range_keys_mset_set:
  "range_keys pragmas keys \<Longrightarrow> mset keys = mset_set (dom pragmas)"
  by (auto simp: range_keys_def dest: mset_set_set)

text \<open>
  C2 (as amended). Every invocation of \<open>formatDSN\<close> serializes one \<open>key=value\<close> pair
  for each visit of the loop, so each pair of the mapping once: its result is the path,
  then, unless the mapping is empty, \<open>?\<close> and these pairs with \<open>&\<close> between them. Two
  invocations with the same path and the same pragma mapping therefore serialize the
  same pairs and return strings of the same length; the order of the pairs is the order
  of the map iteration, which Go does not fix. The two strings are equal when the
  mapping has at most one entry.
\<close>

theorem formatDSN_same_pairs:
  assumes "range_keys pragmas keys" and "range_keys pragmas keys'"
  shows "mset (range_params pragmas keys []) = mset (range_params pragmas keys' []) \<and>
         length (formatDSN path pragmas keys) = length (formatDSN path pragmas keys') \<and>
         (card (dom pragmas) \<le> 1 \<longrightarrow>
            formatDSN path pragmas keys = formatDSN path pragmas keys') \<and>
         range_params pragmas keys [] = map (\<lambda>key. key @ ''='' @ the (pragmas key)) keys \<and>
         mset (range_params pragmas keys []) =
           image_mset (\<lambda>key. key @ ''='' @ the (pragmas key)) (mset_set (dom pragmas)) \<and>
         size (mset (range_params pragmas keys [])) = card (dom pragmas) \<and>
         formatDSN path pragmas keys =
           (if keys = [] then path
            else path @ ''?'' @ Join (map (\<lambda>key. key @ ''='' @ the (pragmas key)) keys) ''&'')"
proof -
  from assms have m: "mset (range_params pragmas keys []) = mset (range_params pragmas keys' [])"
    by (rule range_params_mset)
  then have l: "length (formatDSN path pragmas keys) = length (formatDSN path pragmas keys')"
    by (rule length_formatDSN)
  have e: "card (dom pragmas) \<le> 1 \<longrightarrow> formatDSN path pragmas keys = formatDSN path pragmas keys'"
    using assms by (auto dest: range_keys_small)
  from assms(1) have "set keys \<subseteq> dom pragmas" by (simp add: range_keys_def)
  then have p: "range_params pragmas keys [] = map (\<lambda>key. key @ ''='' @ the (pragmas key)) keys"
    by (rule range_params_map)
  from assms(1) have k: "mset keys = mset_set (dom pragmas)"
    by (rule range_keys_mset_set)
  have i: "mset (range_params pragmas keys []) =
      image_mset (\<lambda>key. key @ ''='' @ the (pragmas key)) (mset_set (dom pragmas))"
    unfolding p by (simp add: k [symmetric])
  from assms(1) have "length keys = card (dom pragmas)"
    by (auto simp: range_keys_def dest: distinct_card)
  with p have c: "size (mset (range_params pragmas keys [])) = card (dom pragmas)"
    by simp
  have f: "formatDSN path pragmas keys =
      (if keys = [] then path
       else path @ ''?'' @ Join (map (\<lambda>key. key @ ''='' @ the (pragmas key)) keys) ''&'')"
    by (simp add: formatDSN_def p)
  from m l e p i c f show ?thesis by blast
qed

theorem formatDSN_same_pairs_witness:
  "range_keys (map_of [(''a'', ''1''), (''b'', ''2'')]) [''a'', ''b''] \<and>
   range_keys (map_of [(''a'', ''1''), (''b'', ''2'')]) [''b'', ''a''] \<and>
   mset (range_params (map_of [(''a'', ''1''), (''b'', ''2'')]) [''a'', ''b''] []) =
     mset (range_params (map_of [(''a'', ''1''), (''b'', ''2'')]) [''b'', ''a''] []) \<and>
   range_params (map_of [(''a'', ''1''), (''b'', ''2'')]) [''a'', ''b''] [] = [''a=1'', ''b=2''] \<and>
   size (mset (range_params (map_of [(''a'', ''1''), (''b'', ''2'')]) [''a'', ''b''] [])) = 2 \<and>
   formatDSN ''app.db'' (map_of [(''a'', ''1''), (''b'', ''2'')]) [''a'', ''b''] = ''app.db?a=1&b=2'' \<and>
   length (formatDSN ''app.db'' (map_of [(''a'', ''1''), (''b'', ''2'')]) [''a'', ''b'']) = 14 \<and>
   length (formatDSN ''app.db'' (map_of [(''a'', ''1''), (''b'', ''2'')]) [''b'', ''a'']) = 14 \<and>
   range_keys (map_of [(''a'', ''1'')]) [''a''] \<and>
   card (dom (map_of [(''a'', ''1'')] :: Pragmas)) \<le> 1 \<and>
   formatDSN ''app.db'' (map_of [(''a'', ''1'')]) [''a''] = ''app.db?a=1''"
proof -
  let ?m = "map_of [(''a'', ''1''), (''b'', ''2'')] :: Pragmas"
  have r1: "range_keys ?m [''a'', ''b'']"
    by (auto simp: range_keys_def)
  have r2: "range_keys ?m [''b'', ''a'']"
    by (auto simp: range_keys_def)
  have r3: "range_keys (map_of [(''a'', ''1'')]) [''a'']"
    by (simp add: range_keys_def)
  have c: "card (dom (map_of [(''a'', ''1'')] :: Pragmas)) \<le> 1"
    by simp
  have d: "card (dom ?m) = 2"
    by (simp add: dom_map_of_conv_image_fst)
  note t = formatDSN_same_pairs [OF r1 r2, of "''app.db''"]
  from t have m: "mset (range_params ?m [''a'', ''b''] []) = mset (range_params ?m [''b'', ''a''] [])"
    by (rule conjunct1)
  from t have "range_params ?m [''a'', ''b''] [] =
      map (\<lambda>key. key @ ''='' @ the (?m key)) [''a'', ''b'']"
    by blast
  then have p: "range_params ?m [''a'', ''b''] [] = [''a=1'', ''b=2'']"
    by simp
  from t have "size (mset (range_params ?m [''a'', ''b''] [])) = card (dom ?m)"
    by blast
  with d have s: "size (mset (range_params ?m [''a'', ''b''] [])) = 2"
    by simp
  from t have "formatDSN ''app.db'' ?m [''a'', ''b''] =
      (if [''a'', ''b''] = [] then ''app.db''
       else ''app.db'' @ ''?'' @ Join (map (\<lambda>key. key @ ''='' @ the (?m key)) [''a'', ''b'']) ''&'')"
    by blast
  then have f: "formatDSN ''app.db'' ?m [''a'', ''b''] = ''app.db?a=1&b=2''"
    by simp
  then have l1: "length (formatDSN ''app.db'' ?m [''a'', ''b'']) = 14"
    by simp
  from t have "length (formatDSN ''app.db'' ?m [''a'', ''b'']) =
      length (formatDSN ''app.db'' ?m [''b'', ''a''])"
    by blast
  with l1 have l2: "length (formatDSN ''app.db'' ?m [''b'', ''a'']) = 14"
    by simp
  from formatDSN_same_pairs [OF r3 r3, of "''app.db''"]
  have "formatDSN ''app.db'' (map_of [(''a'', ''1'')]) [''a''] =
      (if [''a''] = [] then ''app.db''
       else ''app.db'' @ ''?'' @
         Join (map (\<lambda>key. key @ ''='' @ the ((map_of [(''a'', ''1'')] :: Pragmas) key)) [''a'']) ''&'')"
    by blast
  then have v: "formatDSN ''app.db'' (map_of [(''a'', ''1'')]) [''a''] = ''app.db?a=1''"
    by simp
  from r1 r2 m p s f l1 l2 r3 c v show ?thesis by blast
qed

text \<open>
  C2 (as stated) fails for a mapping of two entries: both orders are orders of the
  map iteration, and they give different strings.
\<close>

theorem formatDSN_deterministic_counterexample:
  "range_keys (map_of [(''a'', ''1''), (''b'', ''2'')]) [''a'', ''b''] \<and>
   range_keys (map_of [(''a'', ''1''), (''b'', ''2'')]) [''b'', ''a''] \<and>
   formatDSN ''app.db'' (map_of [(''a'', ''1''), (''b'', ''2'')]) [''a'', ''b''] = ''app.db?a=1&b=2'' \<and>
   formatDSN ''app.db'' (map_of [(''a'', ''1''), (''b'', ''2'')]) [''b'', ''a''] = ''app.db?b=2&a=1'' \<and>
   formatDSN ''app.db'' (map_of [(''a'', ''1''), (''b'', ''2'')]) [''a'', ''b''] \<noteq>
     formatDSN ''app.db'' (map_of [(''a'', ''1''), (''b'', ''2'')]) [''b'', ''a'']"
  by (auto simp: range_keys_def formatDSN_def)

text \<open>
  C5. With an empty pragma mapping \<open>formatDSN\<close> returns the path unchanged, whatever
  the path; no separator and no query string is appended.
\<close>

theorem formatDSN_no_pragmas: "formatDSN path Map.empty keys = path"
  by (simp add: formatDSN_def range_params_empty)

section \<open>Properties of Open\<close>

lemma created_append: "created (xs @ ys) = created xs @ created ys"
  by (induction xs rule: created.induct) simp_all

lemma range_keys_default: "range_keys DefaultPragmas default_keys"
  by (simp add: range_keys_def DefaultPragmas_def default_keys_def dom_map_of_conv_image_fst)

lemma DefaultPragmas_nonempty: "DefaultPragmas \<noteq> Map.empty"
proof
  assume "DefaultPragmas = Map.empty"
  from fun_cong [OF this, of "''journal_mode''"] show False
    by (simp add: DefaultPragmas_def)
qed

text \<open>
  The two variants that close the handle: when \<open>Open\<close> returns an error (or panics
  while building the connector), every handle that is open afterwards was open before
  the call.
\<close>

lemma Open_failure_no_new_handle:
  assumes "fst (Open drv cfg keys calls) = Returns (Inl err) \<or>
           fst (Open drv cfg keys calls) = Panics"
    and "db_open (snd (Open drv cfg keys calls)) db"
  shows "db_open calls db"
  using assms
  by (auto simp: Open_def NewConnector_def OpenDB_def Let_def db_open_def created_append
      split: if_splits option.splits)

lemma Open_sqlite3_failure_no_new_handle:
  assumes "fst (Open_sqlite3 drv cfg keys calls) = Inl err"
    and "db_open (snd (Open_sqlite3 drv cfg keys calls)) db"
  shows "db_open calls db"
  using assms
  by (auto simp: Open_sqlite3_def Open_sql_def Let_def db_open_def created_append
      split: if_splits option.splits)

text \<open>
  The variant of \<^verbatim>\<open>unnamed/part_002\<close> does not: whenever the handle is created and the
  ping fails, the handle is open after the call.
\<close>

lemma Open_part_002_ping_failure:
  assumes "sql_Open_err drv ''sqlite3'' (formatDSN (Path_2 cfg) (Pragmas_2 cfg) keys) = None"
    and "Ping_err drv (length calls) = Some err"
    and "Close (length calls) \<notin> set calls"
  shows "fst (Open_part_002 drv cfg keys calls) = Inl (Errorf ''pinging database: '' err) \<and>
         db_open (snd (Open_part_002 drv cfg keys calls)) (length calls)"
  using assms
  by (simp add: Open_part_002_def Open_sql_def Let_def db_open_def created_append)

text \<open>
  C3 (the code breaks the claim). In the variant of \<^verbatim>\<open>unnamed/part_002\<close>, a failed ping
  makes \<open>Open\<close> return the wrapped error while the handle it has created stays open:
  with the default configuration on a path whose database cannot be opened, handle
  \<open>0\<close> is open after the call.
\<close>

theorem Open_part_002_ping_failure_leaves_open:
  "range_keys (Pragmas_2 DefaultConfig_part_002) default_keys \<and>
   fst (Open_part_002 driver_ping_fails
          (DefaultConfig_part_002\<lparr>Path_2 := ''/missing/app.db''\<rparr>) default_keys []) =
     Inl (Errorf ''pinging database: '' (ErrorString ''unable to open database file'')) \<and>
   db_open (snd (Open_part_002 driver_ping_fails
          (DefaultConfig_part_002\<lparr>Path_2 := ''/missing/app.db''\<rparr>) default_keys [])) 0 \<and>
   \<not> db_open [] 0"
  by (simp add: Open_part_002_def Open_sql_def driver_ping_fails_def DefaultConfig_part_002_def
      db_open_def range_keys_default)

text \<open>
  On a local path the connector is asked for with the \<^verbatim>\<open>nil\<close> option, so the call panics
  and \<open>Open\<close> creates no handle.
\<close>

lemma Open_local_panics:
  assumes "\<not> HasPrefix (Path cfg) ''libsql://''"
  shows "Open drv cfg keys calls =
           (Panics,
            calls @ [libsql_NewConnector (formatDSN (Path cfg) (Pragmas cfg) keys) [None]])"
  using assms by (simp add: Open_def NewConnector_def Let_def)



text \<open>
  C10. In the sqlite3 variant, for the path \<open>:memory:\<close>: with a non-empty pragma set
  the name handed to \<^verbatim>\<open>sql.Open\<close> is \<open>file::memory:?\<close> followed by the pragmas, and with
  the empty pragma set it is the bare \<open>:memory:\<close>, without the prefix.
\<close>

theorem Open_sqlite3_memory_dsn:
  assumes "Path cfg = '':memory:''" and "range_keys (Pragmas cfg) keys"
  shows "(Pragmas cfg \<noteq> Map.empty \<longrightarrow>
            (\<exists>db rest. snd (Open_sqlite3 drv cfg keys calls) =
               calls @ sqlite_vec_Auto #
                 sql_Open ''sqlite3''
                   (''file::memory:?'' @
                      Join (map (\<lambda>key. key @ ''='' @ the (Pragmas cfg key)) keys) ''&'') db #
                 rest)) \<and>
         (Pragmas cfg = Map.empty \<longrightarrow>
            (\<exists>db rest. snd (Open_sqlite3 drv cfg keys calls) =
               calls @ sqlite_vec_Auto # sql_Open ''sqlite3'' '':memory:'' db # rest))"
proof (intro conjI impI)
  assume ne: "Pragmas cfg \<noteq> Map.empty"
  let ?q = "Join (map (\<lambda>key. key @ ''='' @ the (Pragmas cfg key)) keys) ''&''"
  from assms(2) ne have "formatDSN '':memory:'' (Pragmas cfg) keys = '':memory:'' @ ''?'' @ ?q"
    by (rule formatDSN_query)
  with assms(1) have d: "formatDSN (Path cfg) (Pragmas cfg) keys = '':memory:?'' @ ?q"
    by simp
  have "'':memory:?'' @ ?q \<noteq> '':memory:''" by simp
  moreover have "\<not> HasPrefix ('':memory:?'' @ ?q) ''file:''" by (simp add: HasPrefix_def)
  ultimately show "\<exists>db rest. snd (Open_sqlite3 drv cfg keys calls) =
      calls @ sqlite_vec_Auto # sql_Open ''sqlite3'' (''file::memory:?'' @ ?q) db # rest"
    unfolding Open_sqlite3_def d
    by (auto simp: Open_sql_def Let_def split: option.splits)
next
  assume "Pragmas cfg = Map.empty"
  with assms(1) have d: "formatDSN (Path cfg) (Pragmas cfg) keys = '':memory:''"
    by (simp add: formatDSN_def range_params_empty)
  show "\<exists>db rest. snd (Open_sqlite3 drv cfg keys calls) =
      calls @ sqlite_vec_Auto # sql_Open ''sqlite3'' '':memory:'' db # rest"
    unfolding Open_sqlite3_def d
    by (auto simp: Open_sql_def Let_def split: option.splits)
qed

theorem Open_sqlite3_memory_dsn_witness:
  "Path DefaultConfig = '':memory:'' \<and>
   range_keys (Pragmas DefaultConfig) default_keys \<and>
   Pragmas DefaultConfig \<noteq> Map.empty \<and>
   (\<exists>db rest. snd (Open_sqlite3 driver_ok DefaultConfig default_keys []) =
      sqlite_vec_Auto #
      sql_Open ''sqlite3''
        ''file::memory:?journal_mode=WAL&synchronous=NORMAL&foreign_keys=ON&cache_size=-2000&temp_store=MEMORY&mmap_size=268435456''
        db # rest) \<and>
   range_keys (Pragmas (DefaultConfig\<lparr>Pragmas := Map.empty\<rparr>)) [] \<and>
   (\<exists>db rest. snd (Open_sqlite3 driver_ok (DefaultConfig\<lparr>Pragmas := Map.empty\<rparr>) [] []) =
      sqlite_vec_Auto # sql_Open ''sqlite3'' '':memory:'' db # rest)"
proof -
  have p: "Path DefaultConfig = '':memory:''"
    by (simp add: DefaultConfig_def)
  have r: "range_keys (Pragmas DefaultConfig) default_keys"
    by (simp add: DefaultConfig_def range_keys_default)
  have n: "Pragmas DefaultConfig \<noteq> Map.empty"
    by (simp add: DefaultConfig_def DefaultPragmas_nonempty)
  have q: "Join (map (\<lambda>key. key @ ''='' @ the (Pragmas DefaultConfig key)) default_keys) ''&'' =
      ''journal_mode=WAL&synchronous=NORMAL&foreign_keys=ON&cache_size=-2000&temp_store=MEMORY&mmap_size=268435456''"
    by (simp add: DefaultConfig_def DefaultPragmas_def default_keys_def)
  have p': "Path (DefaultConfig\<lparr>Pragmas := Map.empty\<rparr>) = '':memory:''"
    by (simp add: DefaultConfig_def)
  have r': "range_keys (Pragmas (DefaultConfig\<lparr>Pragmas := Map.empty\<rparr>)) []"
    by (simp add: range_keys_def)
  from Open_sqlite3_memory_dsn [OF p r, of driver_ok "[]"] n q
  have a: "\<exists>db rest. snd (Open_sqlite3 driver_ok DefaultConfig default_keys []) =
      sqlite_vec_Auto #
      sql_Open ''sqlite3''
        ''file::memory:?journal_mode=WAL&synchronous=NORMAL&foreign_keys=ON&cache_size=-2000&temp_store=MEMORY&mmap_size=268435456''
        db # rest"
    by simp
  from Open_sqlite3_memory_dsn [OF p' r', of driver_ok "[]"]
  have b: "\<exists>db rest. snd (Open_sqlite3 driver_ok (DefaultConfig\<lparr>Pragmas := Map.empty\<rparr>) [] []) =
      sqlite_vec_Auto # sql_Open ''sqlite3'' '':memory:'' db # rest"
    by simp
  from p r n a r' b show ?thesis by blast
qed

section \<open>Properties of the configuration and of WithContext\<close>

text \<open>
  C4. \<open>DefaultConfig\<close> is the configuration with the path \<open>:memory:\<close>, the empty auth
  token, 5 open and 5 idle connections, a maximal lifetime of 3600 seconds, a maximal
  idle time of 1800 seconds, and the six default pragmas and no other.
\<close>

theorem DefaultConfig_values:
  "DefaultConfig =
     \<lparr>Path = '':memory:'',
      AuthToken = [],
      MaxOpenConns = 5,
      MaxIdleConns = 5,
      ConnMaxLifetime = 3600 * Second,
      ConnMaxIdleTime = 1800 * Second,
      Pragmas =
        [''journal_mode'' \<mapsto> ''WAL'', ''synchronous'' \<mapsto> ''NORMAL'', ''foreign_keys'' \<mapsto> ''ON'',
         ''cache_size'' \<mapsto> ''-2000'', ''temp_store'' \<mapsto> ''MEMORY'',
         ''mmap_size'' \<mapsto> ''268435456'']\<rparr> \<and>
   Second = 1000000000 \<and>
   dom (Pragmas DefaultConfig) =
     {''journal_mode'', ''synchronous'', ''foreign_keys'', ''cache_size'', ''temp_store'',
      ''mmap_size''}"
  by (auto simp: DefaultConfig_def DefaultPragmas_def Hour_def Minute_def Second_def
      Millisecond_def Microsecond_def Nanosecond_def)

text \<open>
  C6. For every parent context and every duration: if the duration is zero or negative,
  \<open>WithContext\<close> returns the parent itself, with its deadline unchanged, and a cancel
  function that changes nothing; if the duration is positive, it returns what
  \<^verbatim>\<open>context.WithTimeout\<close> returns, a child of the parent whose deadline is no later than
  the duration from now.
\<close>

theorem WithContext_cases:
  "(timeout \<le> 0 \<longrightarrow>
      fst (WithContext now ctx timeout) = ctx \<and>
      snd (WithContext now ctx timeout) = empty_func \<and>
      run_cancel (snd (WithContext now ctx timeout)) cancelled = cancelled \<and>
      Deadline (fst (WithContext now ctx timeout)) = Deadline ctx) \<and>
   (0 < timeout \<longrightarrow>
      WithContext now ctx timeout = context_WithTimeout now ctx timeout \<and>
      fst (WithContext now ctx timeout) = timerCtx ctx (now + timeout) \<and>
      (\<exists>t. Deadline (fst (WithContext now ctx timeout)) = Some t \<and> t \<le> now + timeout))"
  by (auto simp: WithContext_def context_WithTimeout_def Let_def split: option.splits)

theorem WithContext_cases_witness:
  "(0::int) \<le> 0 \<and>
   fst (WithContext 100 Background 0) = Background \<and>
   snd (WithContext 100 Background 0) = empty_func \<and>
   run_cancel (snd (WithContext 100 Background 0)) {} = {} \<and>
   (0::int) < 5 \<and>
   WithContext 100 Background 5 = context_WithTimeout 100 Background 5 \<and>
   fst (WithContext 100 Background 5) = timerCtx Background 105"
proof -
  have z: "(0::int) \<le> 0" and p: "(0::int) < 5"
    by simp_all
  from WithContext_cases [of 0 100 Background "{}"] z
  have a: "fst (WithContext 100 Background 0) = Background"
    and b: "snd (WithContext 100 Background 0) = empty_func"
    and c: "run_cancel (snd (WithContext 100 Background 0)) {} = {}"
    by blast+
  from WithContext_cases [of 5 100 Background "{}"] p
  have d: "WithContext 100 Background 5 = context_WithTimeout 100 Background 5"
    and e: "fst (WithContext 100 Background 5) = timerCtx Background (100 + 5)"
    by blast+
  from e have e': "fst (WithContext 100 Background 5) = timerCtx Background 105"
    by simp
  from z p a b c d e' show ?thesis by blast
qed

section \<open>Properties of the migration tool\<close>

lemma digit_in_digits: "d < 10 \<Longrightarrow> digit d \<in> set ''0123456789''"
  unfolding digit_def by (rule nth_mem) simp

lemma decimal_digits: "set (decimal n) \<subseteq> set ''0123456789''"
proof (induction n rule: decimal.induct)
  case (1 n)
  show ?case
  proof (cases "n < 10")
    case True
    then have "digit n \<in> set ''0123456789''" by (rule digit_in_digits)
    with True show ?thesis by (subst decimal.simps) simp
  next
    case False
    then have "set (decimal (n div 10)) \<subseteq> set ''0123456789''" by (rule "1.IH")
    moreover have "digit (n mod 10) \<in> set ''0123456789''" by (rule digit_in_digits) simp
    ultimately show ?thesis using False by (subst decimal.simps) simp
  qed
qed

lemma FormatInt_no_sep: "CHR ''/'' \<notin> set (FormatInt i)"
  using decimal_digits [of "nat i"] decimal_digits [of "nat (- i)"]
  by (auto simp: FormatInt_def)

lemma split_sep_no_sep: "CHR ''/'' \<notin> set s \<Longrightarrow> split_sep s = [s]"
  by (induction s) auto

text \<open>
  A file name without a separator, and longer than \<open>..\<close>, is joined to the migrations
  directory as it is.
\<close>

lemma Join_migrationsDir:
  assumes "CHR ''/'' \<notin> set f" and "2 < length f"
  shows "filepath_Join [migrationsDir, f] = ''db/migrations/'' @ f"
proof -
  from assms(2) have ne: "f \<noteq> []" "f \<noteq> ''.''" "f \<noteq> ''..''" by auto
  from assms(1) have s: "split_sep f = [f]" by (rule split_sep_no_sep)
  have "split_sep (''./db/migrations/'' @ f) = [''.'', ''db'', ''migrations'', f]"
    using s by simp
  then have "Clean (''./db/migrations/'' @ f) = ''db/migrations/'' @ f"
    using ne by (simp add: Clean_def)
  then show ?thesis by (simp add: filepath_Join_def migrationsDir_def)
qed

lemma createMigration_frame:
  "db_calls (snd (createMigration os timestamp name s)) = db_calls s \<and>
   version (snd (createMigration os timestamp name s)) = version s"
  by (simp add: createMigration_def Fatalf_def MkdirAll_def WriteFile_def Let_def
      split: option.splits)

lemma dirs_migrationsDir:
  "dirs (MkdirAll migrationsDir s) = dirs s \<union> {''db'', ''db/migrations''}"
  by (auto simp: MkdirAll_def migrationsDir_def Clean_def Let_def)

text \<open>
  C8 (as amended). \<open>createMigration\<close> never touches the database or the stored version.
  For a migration name without a path separator, when the directory creation and both
  writes succeed, it writes exactly the two files \<open>db/migrations/T_<name>.up.sql\<close> and
  \<open>db/migrations/T_<name>.down.sql\<close>, which are different files of the migrations
  directory, and leaves every other file as it was.
\<close>

theorem createMigration_files:
  "db_calls (snd (createMigration os timestamp name s)) = db_calls s \<and>
   version (snd (createMigration os timestamp name s)) = version s \<and>
   (CHR ''/'' \<notin> set name \<and> fst (createMigration os timestamp name s) = Returned \<longrightarrow>
      files (snd (createMigration os timestamp name s)) =
        (files s)
          (''db/migrations/'' @ FormatInt timestamp @ ''_'' @ name @ ''.up.sql'' \<mapsto>
             ''-- Migration Up'' @ newline,
           ''db/migrations/'' @ FormatInt timestamp @ ''_'' @ name @ ''.down.sql'' \<mapsto>
             ''-- Migration Down'' @ newline) \<and>
      ''db/migrations/'' @ FormatInt timestamp @ ''_'' @ name @ ''.up.sql'' \<noteq>
        ''db/migrations/'' @ FormatInt timestamp @ ''_'' @ name @ ''.down.sql'' \<and>
      dirs (snd (createMigration os timestamp name s)) = dirs s \<union> {''db'', ''db/migrations''})"
proof (intro conjI impI)
  show "db_calls (snd (createMigration os timestamp name s)) = db_calls s"
    by (simp add: createMigration_frame)
  show "version (snd (createMigration os timestamp name s)) = version s"
    by (simp add: createMigration_frame)
next
  assume a: "CHR ''/'' \<notin> set name \<and> fst (createMigration os timestamp name s) = Returned"
  let ?up = "FormatInt timestamp @ ''_'' @ name @ ''.up.sql''"
  let ?down = "FormatInt timestamp @ ''_'' @ name @ ''.down.sql''"
  from a have u1: "CHR ''/'' \<notin> set ?up" and d1: "CHR ''/'' \<notin> set ?down"
    by (simp_all add: FormatInt_no_sep)
  have u2: "2 < length ?up" and d2: "2 < length ?down"
    by simp_all
  have up: "filepath_Join [migrationsDir, ?up] = ''db/migrations/'' @ ?up"
    by (rule Join_migrationsDir [OF u1 u2])
  have down: "filepath_Join [migrationsDir, ?down] = ''db/migrations/'' @ ?down"
    by (rule Join_migrationsDir [OF d1 d2])
  from a have ret: "fst (createMigration os timestamp name s) = Returned" by simp
  show "files (snd (createMigration os timestamp name s)) =
        (files s)
          (''db/migrations/'' @ ?up \<mapsto> ''-- Migration Up'' @ newline,
           ''db/migrations/'' @ ?down \<mapsto> ''-- Migration Down'' @ newline)"
    using ret unfolding createMigration_def up down
    by (simp add: Fatalf_def MkdirAll_def WriteFile_def Let_def split: option.splits)
  show "''db/migrations/'' @ ?up \<noteq> ''db/migrations/'' @ ?down"
    by simp
  show "dirs (snd (createMigration os timestamp name s)) = dirs s \<union> {''db'', ''db/migrations''}"
    using ret dirs_migrationsDir [of s] unfolding createMigration_def up down
    by (simp add: Fatalf_def WriteFile_def Let_def split: option.splits)
qed

theorem createMigration_files_witness:
  "CHR ''/'' \<notin> set ''add_users'' \<and>
   fst (createMigration os_ok 1700000000 ''add_users'' fresh_system) = Returned \<and>
   files (snd (createMigration os_ok 1700000000 ''add_users'' fresh_system)) =
     [''db/migrations/1700000000_add_users.up.sql'' \<mapsto> ''-- Migration Up'' @ newline,
      ''db/migrations/1700000000_add_users.down.sql'' \<mapsto> ''-- Migration Down'' @ newline] \<and>
   db_calls (snd (createMigration os_ok 1700000000 ''add_users'' fresh_system)) = [] \<and>
   version (snd (createMigration os_ok 1700000000 ''add_users'' fresh_system)) = None"
proof -
  have n: "CHR ''/'' \<notin> set ''add_users''"
    by simp
  have r: "fst (createMigration os_ok 1700000000 ''add_users'' fresh_system) = Returned"
    by (simp add: createMigration_def os_ok_def Let_def)
  have t: "FormatInt 1700000000 = ''1700000000''"
    by (simp add: FormatInt_def decimal.simps digit_def)
  have e: "files fresh_system = Map.empty" "db_calls fresh_system = []"
    "version fresh_system = None"
    by (simp_all add: fresh_system_def)
  note c = createMigration_files [of os_ok 1700000000 "''add_users''" fresh_system]
  from c n r have "files (snd (createMigration os_ok 1700000000 ''add_users'' fresh_system)) =
      (files fresh_system)
        (''db/migrations/'' @ FormatInt 1700000000 @ ''_'' @ ''add_users'' @ ''.up.sql'' \<mapsto>
           ''-- Migration Up'' @ newline,
         ''db/migrations/'' @ FormatInt 1700000000 @ ''_'' @ ''add_users'' @ ''.down.sql'' \<mapsto>
           ''-- Migration Down'' @ newline)"
    by blast
  then have f: "files (snd (createMigration os_ok 1700000000 ''add_users'' fresh_system)) =
     [''db/migrations/1700000000_add_users.up.sql'' \<mapsto> ''-- Migration Up'' @ newline,
      ''db/migrations/1700000000_add_users.down.sql'' \<mapsto> ''-- Migration Down'' @ newline]"
    by (simp add: t e)
  from c e have "db_calls (snd (createMigration os_ok 1700000000 ''add_users'' fresh_system)) = []"
    and "version (snd (createMigration os_ok 1700000000 ''add_users'' fresh_system)) = None"
    by simp_all
  with n r f show ?thesis by blast
qed

text \<open>
  C8 (as stated) fails for a name with path separators: \<^verbatim>\<open>filepath.Join\<close> cleans the
  path, so that the name \<open>x/../y\<close> at time 1700000000 gives the two files \<open>y.up.sql\<close>
  and \<open>y.down.sql\<close>, and no file called \<open>1700000000_x/../y.up.sql\<close>.
\<close>

theorem createMigration_name_counterexample:
  "fst (createMigration os_ok 1700000000 ''x/../y'' fresh_system) = Returned \<and>
   files (snd (createMigration os_ok 1700000000 ''x/../y'' fresh_system)) =
     [''db/migrations/y.up.sql'' \<mapsto> ''-- Migration Up'' @ newline,
      ''db/migrations/y.down.sql'' \<mapsto> ''-- Migration Down'' @ newline] \<and>
   files (snd (createMigration os_ok 1700000000 ''x/../y'' fresh_system))
     ''db/migrations/1700000000_x/../y.up.sql'' = None"
proof -
  have t: "FormatInt 1700000000 = ''1700000000''"
    by (simp add: FormatInt_def decimal.simps digit_def)
  have u: "filepath_Join [migrationsDir, ''1700000000_x/../y.up.sql''] = ''db/migrations/y.up.sql''"
    by (simp add: filepath_Join_def migrationsDir_def Clean_def)
  have d: "filepath_Join [migrationsDir, ''1700000000_x/../y.down.sql''] = ''db/migrations/y.down.sql''"
    by (simp add: filepath_Join_def migrationsDir_def Clean_def)
  show ?thesis
    by (simp add: createMigration_def t u d os_ok_def fresh_system_def MkdirAll_def WriteFile_def
        Let_def)
qed

text \<open>
  The reporting code is right where the database opens, which is for a remote path:
  if no migration has ever been applied, \<open>getMigrationVersion\<close> returns normally,
  prints \<open>No migrations applied yet\<close> and logs nothing; if a version is stored, it
  returns normally and prints the version and the dirty flag.
\<close>

lemma getMigrationVersion_remote_reports:
  assumes "HasPrefix (getDBPath os) ''libsql://''"
    and "NewConnector_err drv (getDBPath os) [] = None"
    and "WithInstance_err lib = None"
    and "NewWithDatabaseInstance_err lib = None"
    and "Version_err lib = None"
  shows "(version s = None \<longrightarrow>
            fst (getMigrationVersion drv os lib s) = Returned \<and>
            stdout (snd (getMigrationVersion drv os lib s)) =
              stdout s @ ''No migrations applied yet'' @ newline \<and>
            logged (snd (getMigrationVersion drv os lib s)) = logged s) \<and>
         (version s = Some (v, dirty) \<longrightarrow>
            fst (getMigrationVersion drv os lib s) = Returned \<and>
            stdout (snd (getMigrationVersion drv os lib s)) =
              stdout s @ ''Current migration version: '' @ decimal v @ '' (dirty: '' @
                FormatBool dirty @ '')'' @ newline \<and>
            logged (snd (getMigrationVersion drv os lib s)) = logged s)"
  using assms
  by (auto simp: getMigrationVersion_def openDB_def NewConnector_def OpenDB_def
      migrate_Version_def Let_def)

lemma getMigrationVersion_remote_example:
  "HasPrefix (getDBPath os_remote) ''libsql://'' \<and>
   fst (getMigrationVersion driver_ok os_remote migrate_ok fresh_system) = Returned \<and>
   stdout (snd (getMigrationVersion driver_ok os_remote migrate_ok fresh_system)) =
     ''No migrations applied yet'' @ newline \<and>
   stdout (snd (getMigrationVersion driver_ok os_remote migrate_ok
          (fresh_system\<lparr>version := Some (1700000000, True)\<rparr>))) =
     ''Current migration version: 1700000000 (dirty: true)'' @ newline"
proof -
  have h: "HasPrefix (getDBPath os_remote) ''libsql://''"
    by (simp add: getDBPath_def os_remote_def HasPrefix_def)
  have c: "NewConnector_err driver_ok (getDBPath os_remote) [] = None"
    by (simp add: driver_ok_def)
  have m: "WithInstance_err migrate_ok = None" "NewWithDatabaseInstance_err migrate_ok = None"
    "Version_err migrate_ok = None"
    by (simp_all add: migrate_ok_def)
  have v: "version fresh_system = None" "stdout fresh_system = []"
    by (simp_all add: fresh_system_def)
  have t: "decimal 1700000000 = ''1700000000''"
    by (simp add: decimal.simps digit_def)
  note g = getMigrationVersion_remote_reports [OF h c m]
  from g [where s = fresh_system] v
  have a: "fst (getMigrationVersion driver_ok os_remote migrate_ok fresh_system) = Returned"
    and b: "stdout (snd (getMigrationVersion driver_ok os_remote migrate_ok fresh_system)) =
      ''No migrations applied yet'' @ newline"
    by simp_all
  have w: "version (fresh_system\<lparr>version := Some (1700000000, True)\<rparr>) = Some (1700000000, True)"
    by simp
  from g [where s = "fresh_system\<lparr>version := Some (1700000000, True)\<rparr>"
      and v = 1700000000 and dirty = True] w
  have e: "stdout (snd (getMigrationVersion driver_ok os_remote migrate_ok
          (fresh_system\<lparr>version := Some (1700000000, True)\<rparr>))) =
      ''Current migration version: 1700000000 (dirty: true)'' @ newline"
    by (simp add: t v FormatBool_def)
  from h a b e show ?thesis by blast
qed

text \<open>
  For a local path the tool never reaches the reporting code: \<open>openDB\<close> hands the
  \<^verbatim>\<open>nil\<close> option to \<^verbatim>\<open>libsql.NewConnector\<close>, which panics, whatever the driver and the
  stored version are. Nothing is printed and nothing is logged.
\<close>

lemma getMigrationVersion_local_panics:
  assumes "\<not> HasPrefix (getDBPath os) ''libsql://''"
  shows "fst (getMigrationVersion drv os lib s) = Panicked \<and>
         stdout (snd (getMigrationVersion drv os lib s)) = stdout s \<and>
         logged (snd (getMigrationVersion drv os lib s)) = logged s \<and>
         db_calls (snd (getMigrationVersion drv os lib s)) =
           db_calls s @ [libsql_NewConnector (getDBPath os) [None]]"
  using assms
  by (simp add: getMigrationVersion_def openDB_def NewConnector_def Let_def)

text \<open>
  C9 (the code breaks the claim). With \<^verbatim>\<open>DB_PATH\<close> unset the tool opens the local file
  \<open>parsel.db\<close>; with no migration ever applied, \<open>getMigrationVersion\<close> ends in the
  panic of \<open>openDB\<close> and prints nothing, where the claim has it return normally with
  the message that no migration is applied.
\<close>

theorem getMigrationVersion_default_path_panics:
  "getDBPath os_ok = ''parsel.db'' \<and>
   version fresh_system = None \<and>
   fst (getMigrationVersion driver_ok os_ok migrate_ok fresh_system) = Panicked \<and>
   stdout (snd (getMigrationVersion driver_ok os_ok migrate_ok fresh_system)) = [] \<and>
   logged (snd (getMigrationVersion driver_ok os_ok migrate_ok fresh_system)) = [] \<and>
   db_calls (snd (getMigrationVersion driver_ok os_ok migrate_ok fresh_system)) =
     [libsql_NewConnector ''parsel.db'' [None]]"
  by (simp add: getMigrationVersion_def openDB_def NewConnector_def Let_def getDBPath_def
      os_ok_def fresh_system_def HasPrefix_def)

end
